theory Spec2Isabelle
  imports Main "HOL-Library.Word" "HOL-Library.Sublist"
begin

section \<open>Common runtime model\<close>

text \<open>
  The go-solid repository holds one self-contained \<open>package main\<close> program per SOLID
  principle. Their only effect is text written to standard output, and their only
  runtime fault is a method call through a nil interface value. Standard output is the
  list of bytes written so far (Go strings are byte sequences, so the emoji of the
  format strings appear as their UTF-8 bytes); a computation takes it and returns it
  extended, together with either the panic or the value returned.

  Go's \<open>int\<close> is modelled at 64 bits (its width on 64-bit platforms): \<open>*\<close> wraps
  around and \<open>sint\<close> reads the two's complement value.
\<close>

type_synonym stdout = string

type_synonym go_int = "64 word"

datatype panic = NilDereference

type_synonym 'a io = "stdout \<Rightarrow> (panic + 'a) \<times> stdout"

text \<open>Sequencing: a panic stops the computation, keeping what was already written.\<close>

definition bind_io :: "'a io \<Rightarrow> ('a \<Rightarrow> 'b io) \<Rightarrow> 'b io" where
  "bind_io m f out =
     (case m out of
        (Inl p, out') \<Rightarrow> (Inl p, out')
      | (Inr x, out') \<Rightarrow> f x out')"

definition return_io :: "'a \<Rightarrow> 'a io" where
  "return_io x out = (Inr x, out)"

text \<open>A value computed without output that may panic, used inside a computation.\<close>

definition lift_io :: "panic + 'a \<Rightarrow> 'a io" where
  "lift_io r out = (r, out)"

text \<open>What \<open>fmt.Printf\<close> and \<open>fmt.Println\<close> do once the text is formatted.\<close>

definition write_out :: "string \<Rightarrow> unit io" where
  "write_out s out = (Inr (), out @ s)"

abbreviation newline :: string where
  "newline \<equiv> [CHR 0x0A]"

abbreviation apostrophe :: string where
  "apostrophe \<equiv> [CHR 0x27]"

text \<open>
  The verb \<open>%d\<close> (and \<open>Println\<close> of an \<open>int\<close>): the decimal digits of the signed
  value, with a leading minus sign for a negative one.
\<close>

definition digit_char :: "nat \<Rightarrow> char" where
  "digit_char d = ''0123456789'' ! d"

function dec_nat :: "nat \<Rightarrow> string" where
  "dec_nat n = (if n < 10 then [digit_char n] else dec_nat (n div 10) @ [digit_char (n mod 10)])"
  by pat_completeness auto
termination
  by (relation "measure id") auto

declare dec_nat.simps [simp del]

definition fmt_d :: "go_int \<Rightarrow> string" where
  "fmt_d w = (if sint w < 0 then CHR ''-'' # dec_nat (nat (- sint w)) else dec_nat (nat (sint w)))"

text \<open>The shape of a decimal numeral: an optional minus sign, then at least one digit.\<close>

definition is_digits :: "string \<Rightarrow> bool" where
  "is_digits s = (s \<noteq> [] \<and> list_all (\<lambda>c. c \<in> set ''0123456789'') s)"

definition is_decimal :: "string \<Rightarrow> bool" where
  "is_decimal s =
     (case s of
        [] \<Rightarrow> False
      | c # cs \<Rightarrow> if c = CHR ''-'' then is_digits cs else is_digits s)"


section \<open>2.OCP: roles as implementers of a salary interface\<close>

text \<open>
  \<open>swe\<close> and \<open>sswe\<close> are empty structs. A value of the interface type \<open>role\<close> is
  nil or one of the implementers declared in the file, tagged with its dynamic type.
\<close>

type_synonym swe = unit

type_synonym sswe = unit

datatype role = Role_swe swe | Role_sswe sswe

record employee =
  name :: string
  role :: "role option"

definition swe_getSalary :: "swe \<Rightarrow> go_int" where
  "swe_getSalary s = 3000"

definition sswe_getSalary :: "sswe \<Rightarrow> go_int" where
  "sswe_getSalary s = 5000"

text \<open>Dynamic dispatch of \<open>getSalary\<close> through a non-nil \<open>role\<close> value.\<close>

fun role_getSalary :: "role \<Rightarrow> go_int" where
  "role_getSalary (Role_swe s) = swe_getSalary s"
| "role_getSalary (Role_sswe s) = sswe_getSalary s"

text \<open>\<open>return em.role.getSalary()\<close>: the call through a nil interface panics.\<close>

definition employee_getSalary :: "employee \<Rightarrow> panic + go_int" where
  "employee_getSalary em =
     (case employee.role em of
        None \<Rightarrow> Inl NilDereference
      | Some r \<Rightarrow> Inr (role_getSalary r))"

definition main_OCP :: "unit io" where
  "main_OCP =
     (let em1 = \<lparr>employee.name = ''Mohamed'', role = Some (Role_swe ())\<rparr>;
          em2 = \<lparr>employee.name = ''Ahmed'', role = Some (Role_sswe ())\<rparr>
      in bind_io (lift_io (employee_getSalary em1)) (\<lambda>s1.
         bind_io (write_out (''Salary '' @ fmt_d s1 @ newline)) (\<lambda>_.
         bind_io (lift_io (employee_getSalary em2)) (\<lambda>s2.
         write_out (''Salary '' @ fmt_d s2 @ newline)))))"


section \<open>3.LSP: two implementers behind one consumer\<close>

record fullTimeEmployee =
  name :: string
  salary :: go_int

record contractorEmployee =
  name :: string
  hourlyRate :: go_int
  hoursWorked :: go_int

definition fullTimeEmployee_getName :: "fullTimeEmployee \<Rightarrow> string" where
  "fullTimeEmployee_getName em = fullTimeEmployee.name em"

definition fullTimeEmployee_getSalary :: "fullTimeEmployee \<Rightarrow> go_int" where
  "fullTimeEmployee_getSalary em = salary em"

definition contractorEmployee_getName :: "contractorEmployee \<Rightarrow> string" where
  "contractorEmployee_getName cem = contractorEmployee.name cem"

definition contractorEmployee_getSalary :: "contractorEmployee \<Rightarrow> go_int" where
  "contractorEmployee_getSalary cem = hourlyRate cem * hoursWorked cem"

text \<open>
  A non-nil value of the interface type \<open>baseEmployee\<close>: one of the two implementers of
  the file, tagged with its dynamic type. The interface's methods dispatch on the tag.
\<close>

datatype baseEmployee =
  FullTimeEmployee fullTimeEmployee
| ContractorEmployee contractorEmployee

fun baseEmployee_getName :: "baseEmployee \<Rightarrow> string" where
  "baseEmployee_getName (FullTimeEmployee em) = fullTimeEmployee_getName em"
| "baseEmployee_getName (ContractorEmployee cem) = contractorEmployee_getName cem"

fun baseEmployee_getSalary :: "baseEmployee \<Rightarrow> go_int" where
  "baseEmployee_getSalary (FullTimeEmployee em) = fullTimeEmployee_getSalary em"
| "baseEmployee_getSalary (ContractorEmployee cem) = contractorEmployee_getSalary cem"

text \<open>\<open>fmt.Printf("Name: %s, Salary: %d\n", em.getName(), em.getSalary())\<close>\<close>

definition printEmployeeInfo :: "baseEmployee option \<Rightarrow> unit io" where
  "printEmployeeInfo em =
     (case em of
        None \<Rightarrow> lift_io (Inl NilDereference)
      | Some e \<Rightarrow>
          write_out (''Name: '' @ baseEmployee_getName e @ '', Salary: ''
                     @ fmt_d (baseEmployee_getSalary e) @ newline))"

definition main_LSP :: "unit io" where
  "main_LSP =
     (let em1 = \<lparr>fullTimeEmployee.name = ''Mohamed'', salary = 5000\<rparr>;
          em2 = \<lparr>contractorEmployee.name = ''Ahmed'', hourlyRate = 120, hoursWorked = 10\<rparr>
      in bind_io (printEmployeeInfo (Some (FullTimeEmployee em1))) (\<lambda>_.
         printEmployeeInfo (Some (ContractorEmployee em2))))"


section \<open>4.ISP: segregated capability interfaces\<close>

subsection \<open>Declarations and interface satisfaction\<close>

text \<open>
  The static side of the file: the named types, the methods each struct declares, the
  methods each interface requires (\<open>PaidEmployee\<close> embeds \<open>Employee\<close>), and Go's
  rule that a value may be passed for a parameter when its type is the parameter's
  type, or the parameter is an interface whose methods are all in the method set of the
  value's type.
\<close>

datatype struct_name = Developer_t | Manager_t | Intern_t

datatype iface_name = Employee_t | PaidEmployee_t | TaskAssigner_t

datatype go_type =
  String_t
| Float64_t
| Error_t
| Struct_t struct_name
| Interface_t iface_name

type_synonym method_sig = "string \<times> go_type list \<times> go_type list"

fun declared_methods :: "struct_name \<Rightarrow> method_sig list" where
  "declared_methods Developer_t =
     [(''GetName'', [], [String_t]),
      (''CalculateMonthlyPay'', [], [Float64_t])]"
| "declared_methods Manager_t =
     [(''GetName'', [], [String_t]),
      (''CalculateMonthlyPay'', [], [Float64_t]),
      (''AssignTask'', [String_t, Interface_t Employee_t], [Error_t])]"
| "declared_methods Intern_t =
     [(''GetName'', [], [String_t])]"

definition Employee_methods :: "method_sig list" where
  "Employee_methods = [(''GetName'', [], [String_t])]"

definition PaidEmployee_methods :: "method_sig list" where
  "PaidEmployee_methods = Employee_methods @ [(''CalculateMonthlyPay'', [], [Float64_t])]"

definition TaskAssigner_methods :: "method_sig list" where
  "TaskAssigner_methods = [(''AssignTask'', [String_t, Interface_t Employee_t], [Error_t])]"

fun interface_methods :: "iface_name \<Rightarrow> method_sig list" where
  "interface_methods Employee_t = Employee_methods"
| "interface_methods PaidEmployee_t = PaidEmployee_methods"
| "interface_methods TaskAssigner_t = TaskAssigner_methods"

fun method_set :: "go_type \<Rightarrow> method_sig list" where
  "method_set (Struct_t s) = declared_methods s"
| "method_set (Interface_t i) = interface_methods i"
| "method_set String_t = []"
| "method_set Float64_t = []"
| "method_set Error_t = [(''Error'', [], [String_t])]"

definition implements :: "go_type \<Rightarrow> iface_name \<Rightarrow> bool" where
  "implements t i = list_all (\<lambda>m. m \<in> set (method_set t)) (interface_methods i)"

definition assignable :: "go_type \<Rightarrow> go_type \<Rightarrow> bool" where
  "assignable v t =
     (v = t \<or> (case t of Interface_t i \<Rightarrow> implements v i | _ \<Rightarrow> False))"

datatype func_name = ProcessPayroll_f | AssignWork_f

fun func_params :: "func_name \<Rightarrow> go_type list" where
  "func_params ProcessPayroll_f = [Interface_t PaidEmployee_t]"
| "func_params AssignWork_f = [Interface_t TaskAssigner_t, Interface_t Employee_t, String_t]"

definition call_well_typed :: "func_name \<times> go_type list \<Rightarrow> bool" where
  "call_well_typed c =
     (case c of (f, args) \<Rightarrow>
        length args = length (func_params f) \<and> list_all2 assignable args (func_params f))"

text \<open>
  The calls of \<open>main\<close> that are not commented out, in order, with the types of their
  arguments (\<open>dev\<close> is a \<open>Developer\<close>, \<open>mgr\<close> a \<open>Manager\<close>, \<open>intern\<close> an
  \<open>Intern\<close>, the task a string constant).
\<close>

definition main_ISP_calls :: "(func_name \<times> go_type list) list" where
  "main_ISP_calls =
     [(ProcessPayroll_f, [Struct_t Developer_t]),
      (ProcessPayroll_f, [Struct_t Manager_t]),
      (AssignWork_f, [Struct_t Manager_t, Struct_t Developer_t, String_t]),
      (AssignWork_f, [Struct_t Developer_t, Struct_t Intern_t, String_t])]"

definition main_ISP_typechecks :: bool where
  "main_ISP_typechecks = list_all call_well_typed main_ISP_calls"

subsection \<open>Runtime behaviour of task assignment\<close>

text \<open>
  A \<open>float64\<close> field is only stored and copied by the methods modelled here, so it is
  kept as its IEEE-754 bit pattern. \<open>ProcessPayroll\<close> formats a \<open>float64\<close> with
  \<open>%.2f\<close>; its output is not modelled.
\<close>

type_synonym float64 = "64 word"

record Developer =
  Name :: string
  Salary :: float64

record Manager =
  Name :: string
  Salary :: float64

record Intern =
  Name :: string

definition Developer_GetName :: "Developer \<Rightarrow> string" where
  "Developer_GetName d = Developer.Name d"

definition Developer_CalculateMonthlyPay :: "Developer \<Rightarrow> float64" where
  "Developer_CalculateMonthlyPay d = Developer.Salary d"

definition Manager_GetName :: "Manager \<Rightarrow> string" where
  "Manager_GetName m = Manager.Name m"

definition Manager_CalculateMonthlyPay :: "Manager \<Rightarrow> float64" where
  "Manager_CalculateMonthlyPay m = Manager.Salary m"

definition Intern_GetName :: "Intern \<Rightarrow> string" where
  "Intern_GetName i = Intern.Name i"

text \<open>
  A non-nil value of the interface type \<open>Employee\<close>: one of the three structs of the
  file, each of which declares \<open>GetName\<close>.
\<close>

datatype ISP_Employee =
  Employee_Developer Developer
| Employee_Manager Manager
| Employee_Intern Intern

fun Employee_GetName :: "ISP_Employee \<Rightarrow> string" where
  "Employee_GetName (Employee_Developer d) = Developer_GetName d"
| "Employee_GetName (Employee_Manager m) = Manager_GetName m"
| "Employee_GetName (Employee_Intern i) = Intern_GetName i"

text \<open>
  Go's \<open>error\<close>: nil, or a value with an \<open>Error() string\<close> method, kept as the
  message that method returns.
\<close>

datatype error_value = ErrorString string

fun Error :: "error_value \<Rightarrow> string" where
  "Error (ErrorString s) = s"

type_synonym error = "error_value option"

text \<open>
  A non-nil value of the interface type \<open>TaskAssigner\<close> is its method bound to the
  receiver, so that \<open>AssignWork\<close> is defined for any implementer, including one that
  returns an error.
\<close>

record TaskAssigner =
  AssignTask :: "string \<Rightarrow> ISP_Employee option \<Rightarrow> error io"

text \<open>
  \<open>fmt.Printf("Manager %s assigned '%s' to %s\n", m.Name, task, assignee.GetName())\<close>
  then \<open>return nil\<close>. The arguments are evaluated before anything is printed, so a nil
  \<open>assignee\<close> panics with nothing written.
\<close>

definition Manager_AssignTask :: "Manager \<Rightarrow> string \<Rightarrow> ISP_Employee option \<Rightarrow> error io" where
  "Manager_AssignTask m task assignee =
     (case assignee of
        None \<Rightarrow> lift_io (Inl NilDereference)
      | Some a \<Rightarrow>
          bind_io (write_out (''Manager '' @ Manager.Name m @ '' assigned '' @ apostrophe @ task
                              @ apostrophe @ '' to '' @ Employee_GetName a @ newline))
            (\<lambda>_. return_io None))"

definition Manager_as_TaskAssigner :: "Manager \<Rightarrow> TaskAssigner" where
  "Manager_as_TaskAssigner m = \<lparr>AssignTask = Manager_AssignTask m\<rparr>"

text \<open>\<open>_ = assigner.AssignTask(task, dev)\<close>: the returned error is discarded.\<close>

definition AssignWork :: "TaskAssigner option \<Rightarrow> ISP_Employee option \<Rightarrow> string \<Rightarrow> unit io" where
  "AssignWork assigner dev task =
     (case assigner of
        None \<Rightarrow> lift_io (Inl NilDereference)
      | Some a \<Rightarrow> bind_io (AssignTask a task dev) (\<lambda>_. return_io ()))"


section \<open>5.DIP: a manager over a repository abstraction\<close>

record DIP_Employee =
  Name :: string
  Salary :: go_int

text \<open>
  A non-nil value of the interface type \<open>EmployeeRepository\<close> is its two methods bound
  to the receiver, so that the manager is defined for any backend.
\<close>

record EmployeeRepository =
  Save :: "DIP_Employee \<Rightarrow> error io"
  GetByName :: "string \<Rightarrow> (DIP_Employee \<times> error) io"

text \<open>The UTF-8 bytes of the three emoji that open the format strings.\<close>

abbreviation floppy_disk :: string where
  "floppy_disk \<equiv> [CHR 0xF0, CHR 0x9F, CHR 0x92, CHR 0xBE]"

abbreviation magnifier :: string where
  "magnifier \<equiv> [CHR 0xF0, CHR 0x9F, CHR 0x94, CHR 0x8D]"

abbreviation check_mark :: string where
  "check_mark \<equiv> [CHR 0xE2, CHR 0x9C, CHR 0x85]"

text \<open>The three backends are empty structs; their methods ignore the receiver.\<close>

type_synonym MySQLRepository = unit

type_synonym PostgresRepository = unit

type_synonym MongoRepository = unit

definition MySQLRepository_Save :: "MySQLRepository \<Rightarrow> DIP_Employee \<Rightarrow> error io" where
  "MySQLRepository_Save db emp =
     bind_io (write_out (floppy_disk @ '' Saving employee '' @ apostrophe @ DIP_Employee.Name emp
                         @ apostrophe @ '' to MySQL database'' @ newline))
       (\<lambda>_. return_io None)"

definition MySQLRepository_GetByName :: "MySQLRepository \<Rightarrow> string \<Rightarrow> (DIP_Employee \<times> error) io" where
  "MySQLRepository_GetByName db name' =
     bind_io (write_out (magnifier @ '' Fetching employee '' @ apostrophe @ name'
                         @ apostrophe @ '' from MySQL database'' @ newline))
       (\<lambda>_. return_io (\<lparr>DIP_Employee.Name = name', DIP_Employee.Salary = 5000\<rparr>, None))"

definition PostgresRepository_Save :: "PostgresRepository \<Rightarrow> DIP_Employee \<Rightarrow> error io" where
  "PostgresRepository_Save db emp =
     bind_io (write_out (floppy_disk @ '' Saving employee '' @ apostrophe @ DIP_Employee.Name emp
                         @ apostrophe @ '' to PostgreSQL database'' @ newline))
       (\<lambda>_. return_io None)"

definition PostgresRepository_GetByName :: "PostgresRepository \<Rightarrow> string \<Rightarrow> (DIP_Employee \<times> error) io" where
  "PostgresRepository_GetByName db name' =
     bind_io (write_out (magnifier @ '' Fetching employee '' @ apostrophe @ name'
                         @ apostrophe @ '' from PostgreSQL database'' @ newline))
       (\<lambda>_. return_io (\<lparr>DIP_Employee.Name = name', DIP_Employee.Salary = 5000\<rparr>, None))"

definition MongoRepository_Save :: "MongoRepository \<Rightarrow> DIP_Employee \<Rightarrow> error io" where
  "MongoRepository_Save db emp =
     bind_io (write_out (floppy_disk @ '' Saving employee '' @ apostrophe @ DIP_Employee.Name emp
                         @ apostrophe @ '' to MongoDB database'' @ newline))
       (\<lambda>_. return_io None)"

definition MongoRepository_GetByName :: "MongoRepository \<Rightarrow> string \<Rightarrow> (DIP_Employee \<times> error) io" where
  "MongoRepository_GetByName db name' =
     bind_io (write_out (magnifier @ '' Fetching employee '' @ apostrophe @ name'
                         @ apostrophe @ '' from MongoDB database'' @ newline))
       (\<lambda>_. return_io (\<lparr>DIP_Employee.Name = name', DIP_Employee.Salary = 5000\<rparr>, None))"

text \<open>Each backend as a value of the interface type.\<close>

definition MySQL_repo :: "MySQLRepository \<Rightarrow> EmployeeRepository" where
  "MySQL_repo db = \<lparr>Save = MySQLRepository_Save db, GetByName = MySQLRepository_GetByName db\<rparr>"

definition Postgres_repo :: "PostgresRepository \<Rightarrow> EmployeeRepository" where
  "Postgres_repo db =
     \<lparr>Save = PostgresRepository_Save db, GetByName = PostgresRepository_GetByName db\<rparr>"

definition Mongo_repo :: "MongoRepository \<Rightarrow> EmployeeRepository" where
  "Mongo_repo db = \<lparr>Save = MongoRepository_Save db, GetByName = MongoRepository_GetByName db\<rparr>"

record EmployeeManager =
  repository :: "EmployeeRepository option"

text \<open>
  \<open>err := em.repository.Save(emp)\<close>, then \<open>fmt.Println("Error saving employee:", err)\<close>
  when \<open>err\<close> is not nil. \<open>Println\<close> separates its operands by a space and prints an
  error by its \<open>Error()\<close> text.
\<close>

definition AddEmployee :: "EmployeeManager \<Rightarrow> DIP_Employee \<Rightarrow> unit io" where
  "AddEmployee em emp =
     (case repository em of
        None \<Rightarrow> lift_io (Inl NilDereference)
      | Some r \<Rightarrow>
          bind_io (Save r emp) (\<lambda>err.
            case err of
              Some e \<Rightarrow> write_out (''Error saving employee: '' @ Error e @ newline)
            | None \<Rightarrow> return_io ()))"

definition FindEmployee :: "EmployeeManager \<Rightarrow> string \<Rightarrow> unit io" where
  "FindEmployee em name' =
     (case repository em of
        None \<Rightarrow> lift_io (Inl NilDereference)
      | Some r \<Rightarrow>
          bind_io (GetByName r name') (\<lambda>(emp, err).
            case err of
              Some e \<Rightarrow> write_out (''Error fetching employee: '' @ Error e @ newline)
            | None \<Rightarrow>
                write_out (check_mark @ '' Found employee: '' @ DIP_Employee.Name emp
                           @ '', Salary: '' @ fmt_d (DIP_Employee.Salary emp) @ newline)))"

definition main_DIP :: "unit io" where
  "main_DIP =
     (let mohamed = \<lparr>DIP_Employee.Name = ''Mohamed'', DIP_Employee.Salary = 5000\<rparr>;
          ahmed = \<lparr>DIP_Employee.Name = ''Ahmed'', DIP_Employee.Salary = 6000\<rparr>;
          ali = \<lparr>DIP_Employee.Name = ''Ali'', DIP_Employee.Salary = 4500\<rparr>;
          manager1 = \<lparr>repository = Some (MySQL_repo ())\<rparr>;
          manager2 = \<lparr>repository = Some (Postgres_repo ())\<rparr>;
          manager3 = \<lparr>repository = Some (Mongo_repo ())\<rparr>
      in bind_io (AddEmployee manager1 mohamed) (\<lambda>_.
         bind_io (FindEmployee manager1 ''Mohamed'') (\<lambda>_.
         bind_io (write_out newline) (\<lambda>_.
         bind_io (AddEmployee manager2 ahmed) (\<lambda>_.
         bind_io (FindEmployee manager2 ''Ahmed'') (\<lambda>_.
         bind_io (write_out newline) (\<lambda>_.
         bind_io (AddEmployee manager3 ali) (\<lambda>_.
         FindEmployee manager3 ''Ali''))))))))"


section \<open>Properties\<close>

subsection \<open>Decimal formatting\<close>

lemma upt_10: "[0..<10] = [0, 1, 2, 3, 4, 5, 6, 7, 8, 9 :: nat]"
  by code_simp

lemma digit_char_table:
  "list_all (\<lambda>d. digit_char d \<in> set ''0123456789'') [0, 1, 2, 3, 4, 5, 6, 7, 8, 9]"
  by (simp add: digit_char_def)

lemma digit_char_is_digit:
  assumes "d < 10"
  shows "digit_char d \<in> set ''0123456789''"
proof -
  from assms have "d \<in> set [0..<10]" by simp
  then show ?thesis
    using digit_char_table unfolding upt_10 list_all_iff by blast
qed

lemma dec_nat_is_digits: "is_digits (dec_nat n)"
proof (induction n rule: dec_nat.induct)
  case (1 n)
  show ?case
  proof (cases "n < 10")
    case True
    then have "dec_nat n = [digit_char n]"
      by (subst dec_nat.simps) simp
    then show ?thesis
      using True digit_char_is_digit [of n] by (simp add: is_digits_def)
  next
    case False
    have last_digit: "n mod 10 < 10" by simp
    from False 1 have front: "is_digits (dec_nat (n div 10))" by simp
    have unfolded: "dec_nat n = dec_nat (n div 10) @ [digit_char (n mod 10)]"
      using False by (subst dec_nat.simps) simp
    show ?thesis
      unfolding unfolded using front digit_char_is_digit [OF last_digit]
      by (simp add: is_digits_def)
  qed
qed

lemma dec_nat_starts_with_digit: "\<exists>c cs. dec_nat n = c # cs \<and> c \<noteq> CHR ''-''"
  using dec_nat_is_digits [of n]
  by (cases "dec_nat n") (auto simp: is_digits_def)

lemma fmt_d_is_decimal: "is_decimal (fmt_d w)"
proof (cases "sint w < 0")
  case True
  then show ?thesis
    using dec_nat_is_digits [of "nat (- sint w)"] by (simp add: fmt_d_def is_decimal_def)
next
  case False
  obtain c cs where "dec_nat (nat (sint w)) = c # cs" and "c \<noteq> CHR ''-''"
    using dec_nat_starts_with_digit [of "nat (sint w)"] by blast
  with False show ?thesis
    using dec_nat_is_digits [of "nat (sint w)"]
    by (simp add: fmt_d_def is_decimal_def)
qed

lemma fmt_d_3000: "fmt_d 3000 = ''3000''"
  by (simp add: fmt_d_def digit_char_def dec_nat.simps)

lemma fmt_d_5000: "fmt_d 5000 = ''5000''"
  by (simp add: fmt_d_def digit_char_def dec_nat.simps)

lemma fmt_d_1200: "fmt_d 1200 = ''1200''"
  by (simp add: fmt_d_def digit_char_def dec_nat.simps)

lemma fmt_d_negative: "fmt_d (- 42) = ''-42''"
  by (simp add: fmt_d_def digit_char_def dec_nat.simps)

lemmas io_defs = bind_io_def return_io_def lift_io_def write_out_def

subsection \<open>2.OCP\<close>

lemma main_OCP_output:
  "main_OCP [] = (Inr (), ''Salary 3000'' @ newline @ ''Salary 5000'' @ newline)"
  by (simp add: main_OCP_def io_defs employee_getSalary_def swe_getSalary_def
      sswe_getSalary_def fmt_d_3000 fmt_d_5000)

text \<open>
  C7: each role tier returns a fixed constant, 3000 for \<open>swe\<close> and 5000 for \<open>sswe\<close>,
  also when called through the \<open>role\<close> interface, and the salary of every employee
  that holds a role implementer is that implementer's salary.
\<close>

theorem role_salaries_and_delegation:
  "swe_getSalary s = 3000 \<and> sswe_getSalary t = 5000
   \<and> role_getSalary (Role_swe s) = 3000 \<and> role_getSalary (Role_sswe t) = 5000
   \<and> employee_getSalary \<lparr>employee.name = n, role = Some r\<rparr> = Inr (role_getSalary r)"
  by (simp add: swe_getSalary_def sswe_getSalary_def employee_getSalary_def)

text \<open>
  C10: \<open>getSalary\<close> of the zero-value employee (empty name, nil role) panics on the nil
  interface instead of returning an integer, and \<open>getSalary\<close> of an employee returns
  an integer exactly when its role is not nil.
\<close>

theorem employee_getSalary_needs_role:
  "employee_getSalary \<lparr>employee.name = [], role = None\<rparr> = Inl NilDereference
   \<and> ((\<exists>v. employee_getSalary em = Inr v) = (employee.role em \<noteq> None))"
  by (auto simp: employee_getSalary_def split: option.splits)

subsection \<open>3.LSP\<close>

lemma main_LSP_output:
  "main_LSP [] =
     (Inr (), ''Name: Mohamed, Salary: 5000'' @ newline @ ''Name: Ahmed, Salary: 1200'' @ newline)"
  by (simp add: main_LSP_def io_defs printEmployeeInfo_def
      fullTimeEmployee_getName_def fullTimeEmployee_getSalary_def
      contractorEmployee_getName_def contractorEmployee_getSalary_def fmt_d_5000 fmt_d_1200)

lemma sint_mult_in_range:
  fixes a b :: go_int
  assumes "- (2 ^ 63) \<le> sint a * sint b" and "sint a * sint b < 2 ^ 63"
  shows "sint (a * b) = sint a * sint b"
  using assms by (simp add: sint_word_ariths signed_take_bit_int_eq_self)

text \<open>
  C3: the full-time implementer returns its stored salary; the contractor returns the
  product of its hourly rate and its hours worked, as Go's \<open>*\<close> on \<open>int\<close> computes it,
  which is the mathematical product of the two signed values whenever that product fits
  in an \<open>int\<close>; for an hourly rate of 120 and 10 hours worked the result is 1200.
\<close>

theorem getSalary_contractor_product:
  "fullTimeEmployee_getSalary fem = salary fem
   \<and> contractorEmployee_getSalary cem = hourlyRate cem * hoursWorked cem
   \<and> (- (2 ^ 63) \<le> sint (hourlyRate cem) * sint (hoursWorked cem)
        \<and> sint (hourlyRate cem) * sint (hoursWorked cem) < 2 ^ 63
      \<longrightarrow> sint (contractorEmployee_getSalary cem)
            = sint (hourlyRate cem) * sint (hoursWorked cem))
   \<and> contractorEmployee_getSalary
        \<lparr>contractorEmployee.name = n, hourlyRate = 120, hoursWorked = 10\<rparr> = 1200"
  by (simp add: fullTimeEmployee_getSalary_def contractorEmployee_getSalary_def
      sint_mult_in_range)

theorem getSalary_contractor_product_witness:
  "(- (2 ^ 63) \<le> sint (120 :: go_int) * sint (10 :: go_int)
      \<and> sint (120 :: go_int) * sint (10 :: go_int) < 2 ^ 63)
   \<and> sint (contractorEmployee_getSalary
        \<lparr>contractorEmployee.name = ''Ahmed'', hourlyRate = 120, hoursWorked = 10\<rparr>) = 1200"
  using getSalary_contractor_product
    [of _ "\<lparr>contractorEmployee.name = ''Ahmed'', hourlyRate = 120, hoursWorked = 10\<rparr>"]
  by simp

text \<open>
  C8: for either implementer behind the \<open>baseEmployee\<close> interface,
  \<open>printEmployeeInfo\<close> returns normally after writing exactly one line
  \<open>Name: <name>, Salary: <salary>\<close>, where the salary is a decimal numeral; a
  contractor and a full-time employee with the same name and the same salary value
  produce the same output.
\<close>

theorem printEmployeeInfo_uniform_format:
  "printEmployeeInfo (Some em) out =
     (Inr (), out @ ''Name: '' @ baseEmployee_getName em @ '', Salary: ''
                @ fmt_d (baseEmployee_getSalary em) @ newline)
   \<and> is_decimal (fmt_d (baseEmployee_getSalary em))
   \<and> printEmployeeInfo
        (Some (ContractorEmployee
           \<lparr>contractorEmployee.name = n, hourlyRate = r, hoursWorked = h\<rparr>)) out
     = printEmployeeInfo
        (Some (FullTimeEmployee \<lparr>fullTimeEmployee.name = n, salary = r * h\<rparr>)) out"
  by (simp add: printEmployeeInfo_def write_out_def fmt_d_is_decimal
      fullTimeEmployee_getName_def fullTimeEmployee_getSalary_def
      contractorEmployee_getName_def contractorEmployee_getSalary_def)

subsection \<open>4.ISP\<close>

lemmas isp_static_defs = call_well_typed_def assignable_def implements_def
  Employee_methods_def PaidEmployee_methods_def TaskAssigner_methods_def

text \<open>
  C1: the ISP example's \<open>main\<close> does not type-check. Its first three calls are
  well-typed, but the last one, \<open>AssignWork(dev, intern, "Review code")\<close>, passes a
  \<open>Developer\<close> where a \<open>TaskAssigner\<close> is required, and \<open>Developer\<close> declares no
  \<open>AssignTask\<close> method.
\<close>

theorem main_ISP_rejected_by_type_check:
  "\<not> main_ISP_typechecks
   \<and> \<not> implements (Struct_t Developer_t) TaskAssigner_t
   \<and> call_well_typed (main_ISP_calls ! 0) \<and> call_well_typed (main_ISP_calls ! 1)
   \<and> call_well_typed (main_ISP_calls ! 2) \<and> \<not> call_well_typed (main_ISP_calls ! 3)"
  by (simp add: main_ISP_typechecks_def main_ISP_calls_def isp_static_defs)

text \<open>
  C9: an \<open>Intern\<close>, which satisfies \<open>Employee\<close> but not \<open>PaidEmployee\<close>, is rejected
  by the type check as the argument of \<open>ProcessPayroll\<close>; a \<open>Developer\<close> and a
  \<open>Manager\<close> are accepted, and a struct of the file is accepted exactly when it
  satisfies \<open>PaidEmployee\<close>.
\<close>

theorem ProcessPayroll_accepts_only_payable:
  "\<not> call_well_typed (ProcessPayroll_f, [Struct_t Intern_t])
   \<and> implements (Struct_t Intern_t) Employee_t
   \<and> \<not> implements (Struct_t Intern_t) PaidEmployee_t
   \<and> call_well_typed (ProcessPayroll_f, [Struct_t Developer_t])
   \<and> call_well_typed (ProcessPayroll_f, [Struct_t Manager_t])
   \<and> call_well_typed (ProcessPayroll_f, [Struct_t s]) = implements (Struct_t s) PaidEmployee_t
   \<and> implements (Struct_t s) PaidEmployee_t = (s = Developer_t \<or> s = Manager_t)"
  by (cases s) (simp_all add: isp_static_defs)

lemma AssignWork_in_main:
  "AssignWork (Some (Manager_as_TaskAssigner \<lparr>Manager.Name = ''Bob'', Manager.Salary = 0x40B3880000000000\<rparr>))
     (Some (Employee_Developer \<lparr>Developer.Name = ''Alice'', Developer.Salary = 0x40A7700000000000\<rparr>))
     ''Implement new feature'' []
   = (Inr (), ''Manager Bob assigned '' @ apostrophe @ ''Implement new feature'' @ apostrophe
              @ '' to Alice'' @ newline)"
  by (simp add: AssignWork_def Manager_as_TaskAssigner_def Manager_AssignTask_def io_defs
      Developer_GetName_def)

subsection \<open>5.DIP\<close>

lemma AddEmployee_MySQL:
  "AddEmployee \<lparr>repository = Some (MySQL_repo db)\<rparr> emp out =
     (Inr (), out @ floppy_disk @ '' Saving employee '' @ apostrophe @ DIP_Employee.Name emp
        @ apostrophe @ '' to MySQL database'' @ newline)"
  by (simp add: AddEmployee_def MySQL_repo_def MySQLRepository_Save_def io_defs)

lemma FindEmployee_MySQL:
  "FindEmployee \<lparr>repository = Some (MySQL_repo db)\<rparr> n out =
     (Inr (), out @ magnifier @ '' Fetching employee '' @ apostrophe @ n
        @ apostrophe @ '' from MySQL database'' @ newline
        @ check_mark @ '' Found employee: '' @ n @ '', Salary: 5000'' @ newline)"
  by (simp add: FindEmployee_def MySQL_repo_def MySQLRepository_GetByName_def io_defs fmt_d_5000)

lemma AddEmployee_Postgres:
  "AddEmployee \<lparr>repository = Some (Postgres_repo db)\<rparr> emp out =
     (Inr (), out @ floppy_disk @ '' Saving employee '' @ apostrophe @ DIP_Employee.Name emp
        @ apostrophe @ '' to PostgreSQL database'' @ newline)"
  by (simp add: AddEmployee_def Postgres_repo_def PostgresRepository_Save_def io_defs)

lemma FindEmployee_Postgres:
  "FindEmployee \<lparr>repository = Some (Postgres_repo db)\<rparr> n out =
     (Inr (), out @ magnifier @ '' Fetching employee '' @ apostrophe @ n
        @ apostrophe @ '' from PostgreSQL database'' @ newline
        @ check_mark @ '' Found employee: '' @ n @ '', Salary: 5000'' @ newline)"
  by (simp add: FindEmployee_def Postgres_repo_def PostgresRepository_GetByName_def io_defs
      fmt_d_5000)

lemma AddEmployee_Mongo:
  "AddEmployee \<lparr>repository = Some (Mongo_repo db)\<rparr> emp out =
     (Inr (), out @ floppy_disk @ '' Saving employee '' @ apostrophe @ DIP_Employee.Name emp
        @ apostrophe @ '' to MongoDB database'' @ newline)"
  by (simp add: AddEmployee_def Mongo_repo_def MongoRepository_Save_def io_defs)

lemma FindEmployee_Mongo:
  "FindEmployee \<lparr>repository = Some (Mongo_repo db)\<rparr> n out =
     (Inr (), out @ magnifier @ '' Fetching employee '' @ apostrophe @ n
        @ apostrophe @ '' from MongoDB database'' @ newline
        @ check_mark @ '' Found employee: '' @ n @ '', Salary: 5000'' @ newline)"
  by (simp add: FindEmployee_def Mongo_repo_def MongoRepository_GetByName_def io_defs fmt_d_5000)

lemma main_DIP_output:
  "main_DIP [] =
     (Inr (),
      floppy_disk @ '' Saving employee 'Mohamed' to MySQL database'' @ newline
      @ magnifier @ '' Fetching employee 'Mohamed' from MySQL database'' @ newline
      @ check_mark @ '' Found employee: Mohamed, Salary: 5000'' @ newline
      @ newline
      @ floppy_disk @ '' Saving employee 'Ahmed' to PostgreSQL database'' @ newline
      @ magnifier @ '' Fetching employee 'Ahmed' from PostgreSQL database'' @ newline
      @ check_mark @ '' Found employee: Ahmed, Salary: 5000'' @ newline
      @ newline
      @ floppy_disk @ '' Saving employee 'Ali' to MongoDB database'' @ newline
      @ magnifier @ '' Fetching employee 'Ali' from MongoDB database'' @ newline
      @ check_mark @ '' Found employee: Ali, Salary: 5000'' @ newline)"
  by (simp add: main_DIP_def Let_def bind_io_def write_out_def
      AddEmployee_MySQL FindEmployee_MySQL AddEmployee_Postgres FindEmployee_Postgres
      AddEmployee_Mongo FindEmployee_Mongo)

lemma sublist_after_two: "sublist xs (a @ b @ xs @ c)"
proof -
  have "sublist xs ((a @ b) @ xs @ c)" by (rule sublist_appendI)
  then show ?thesis by simp
qed

text \<open>
  C2: for each of the three backends, \<open>AddEmployee\<close> followed by \<open>FindEmployee\<close> with
  the same name on a manager bound to that backend returns normally and writes the save
  line naming the backend, the fetch line, and the found line naming the same employee.
  For the employee Mohamed with salary 5000 on the MySQL backend, the save line contains
  \<open>Mohamed\<close> and \<open>MySQL\<close>, and \<open>FindEmployee("Mohamed")\<close> reports salary 5000.
\<close>

theorem add_then_find_each_backend:
  "bind_io (AddEmployee \<lparr>repository = Some (MySQL_repo db1)\<rparr> emp)
      (\<lambda>_. FindEmployee \<lparr>repository = Some (MySQL_repo db1)\<rparr> (DIP_Employee.Name emp)) out
     = (Inr (), out
          @ floppy_disk @ '' Saving employee '' @ apostrophe @ DIP_Employee.Name emp
          @ apostrophe @ '' to MySQL database'' @ newline
          @ magnifier @ '' Fetching employee '' @ apostrophe @ DIP_Employee.Name emp
          @ apostrophe @ '' from MySQL database'' @ newline
          @ check_mark @ '' Found employee: '' @ DIP_Employee.Name emp
          @ '', Salary: 5000'' @ newline)
   \<and> bind_io (AddEmployee \<lparr>repository = Some (Postgres_repo db2)\<rparr> emp)
      (\<lambda>_. FindEmployee \<lparr>repository = Some (Postgres_repo db2)\<rparr> (DIP_Employee.Name emp)) out
     = (Inr (), out
          @ floppy_disk @ '' Saving employee '' @ apostrophe @ DIP_Employee.Name emp
          @ apostrophe @ '' to PostgreSQL database'' @ newline
          @ magnifier @ '' Fetching employee '' @ apostrophe @ DIP_Employee.Name emp
          @ apostrophe @ '' from PostgreSQL database'' @ newline
          @ check_mark @ '' Found employee: '' @ DIP_Employee.Name emp
          @ '', Salary: 5000'' @ newline)
   \<and> bind_io (AddEmployee \<lparr>repository = Some (Mongo_repo db3)\<rparr> emp)
      (\<lambda>_. FindEmployee \<lparr>repository = Some (Mongo_repo db3)\<rparr> (DIP_Employee.Name emp)) out
     = (Inr (), out
          @ floppy_disk @ '' Saving employee '' @ apostrophe @ DIP_Employee.Name emp
          @ apostrophe @ '' to MongoDB database'' @ newline
          @ magnifier @ '' Fetching employee '' @ apostrophe @ DIP_Employee.Name emp
          @ apostrophe @ '' from MongoDB database'' @ newline
          @ check_mark @ '' Found employee: '' @ DIP_Employee.Name emp
          @ '', Salary: 5000'' @ newline)
   \<and> AddEmployee \<lparr>repository = Some (MySQL_repo ())\<rparr>
        \<lparr>DIP_Employee.Name = ''Mohamed'', DIP_Employee.Salary = 5000\<rparr> []
     = (Inr (), floppy_disk @ '' Saving employee 'Mohamed' to MySQL database'' @ newline)
   \<and> sublist ''Mohamed''
        (snd (AddEmployee \<lparr>repository = Some (MySQL_repo ())\<rparr>
                \<lparr>DIP_Employee.Name = ''Mohamed'', DIP_Employee.Salary = 5000\<rparr> []))
   \<and> sublist ''MySQL''
        (snd (AddEmployee \<lparr>repository = Some (MySQL_repo ())\<rparr>
                \<lparr>DIP_Employee.Name = ''Mohamed'', DIP_Employee.Salary = 5000\<rparr> []))
   \<and> FindEmployee \<lparr>repository = Some (MySQL_repo ())\<rparr> ''Mohamed'' []
     = (Inr (), magnifier @ '' Fetching employee 'Mohamed' from MySQL database'' @ newline
          @ check_mark @ '' Found employee: Mohamed, Salary: 5000'' @ newline)"
proof -
  have mohamed: "sublist ''Mohamed''
      (floppy_disk @ '' Saving employee '' @ apostrophe @ ''Mohamed''
         @ (apostrophe @ '' to MySQL database'' @ newline))"
    using sublist_after_two [of "''Mohamed''" floppy_disk "'' Saving employee '' @ apostrophe"]
    by simp
  have mysql: "sublist ''MySQL''
      (floppy_disk @ '' Saving employee 'Mohamed' to '' @ ''MySQL'' @ '' database'' @ newline)"
    by (rule sublist_after_two)
  show ?thesis
    using mohamed mysql
    by (simp add: bind_io_def AddEmployee_MySQL FindEmployee_MySQL AddEmployee_Postgres
        FindEmployee_Postgres AddEmployee_Mongo FindEmployee_Mongo)
qed

text \<open>
  C4: for every queried name, \<open>GetByName\<close> of each of the three backends writes its
  fetch line and returns the employee record with that name and salary 5000, together
  with a nil error.
\<close>

theorem GetByName_placeholder_record:
  "MySQLRepository_GetByName db1 n out =
      (Inr (\<lparr>DIP_Employee.Name = n, DIP_Employee.Salary = 5000\<rparr>, None),
       out @ magnifier @ '' Fetching employee '' @ apostrophe @ n @ apostrophe
         @ '' from MySQL database'' @ newline)
   \<and> PostgresRepository_GetByName db2 n out =
      (Inr (\<lparr>DIP_Employee.Name = n, DIP_Employee.Salary = 5000\<rparr>, None),
       out @ magnifier @ '' Fetching employee '' @ apostrophe @ n @ apostrophe
         @ '' from PostgreSQL database'' @ newline)
   \<and> MongoRepository_GetByName db3 n out =
      (Inr (\<lparr>DIP_Employee.Name = n, DIP_Employee.Salary = 5000\<rparr>, None),
       out @ magnifier @ '' Fetching employee '' @ apostrophe @ n @ apostrophe
         @ '' from MongoDB database'' @ newline)"
  by (simp add: MySQLRepository_GetByName_def PostgresRepository_GetByName_def
      MongoRepository_GetByName_def io_defs)

subsection \<open>Error handling\<close>

text \<open>
  C5, as stated, fails: \<open>Manager.AssignTask\<close> called with a nil assignee does not
  return a nil error; it panics on \<open>assignee.GetName()\<close>.
\<close>

theorem AssignTask_nil_assignee_panics:
  "fst (Manager_AssignTask \<lparr>Manager.Name = ''Bob'', Manager.Salary = 0x40B3880000000000\<rparr>
          ''Review code'' None [])
   = Inl NilDereference"
  by (simp add: Manager_AssignTask_def io_defs)

text \<open>
  C5, amended: for every input, \<open>Save\<close> and \<open>GetByName\<close> of each backend return a nil
  error; \<open>Manager.AssignTask\<close> returns a nil error exactly when its assignee is not
  nil, and never returns an error that is not nil.
\<close>

theorem implementers_never_return_error:
  "fst (MySQLRepository_Save db1 emp out) = Inr None
   \<and> fst (PostgresRepository_Save db2 emp out) = Inr None
   \<and> fst (MongoRepository_Save db3 emp out) = Inr None
   \<and> (\<exists>found. fst (MySQLRepository_GetByName db1 n out) = Inr (found, None))
   \<and> (\<exists>found. fst (PostgresRepository_GetByName db2 n out) = Inr (found, None))
   \<and> (\<exists>found. fst (MongoRepository_GetByName db3 n out) = Inr (found, None))
   \<and> fst (Manager_AssignTask m task (Some a) out) = Inr None
   \<and> (fst (Manager_AssignTask m task assignee out) = Inr None) = (assignee \<noteq> None)
   \<and> fst (Manager_AssignTask m task assignee out) \<noteq> Inr (Some e)"
  by (cases assignee) (simp_all add: MySQLRepository_Save_def PostgresRepository_Save_def
      MongoRepository_Save_def MySQLRepository_GetByName_def PostgresRepository_GetByName_def
      MongoRepository_GetByName_def Manager_AssignTask_def io_defs)

text \<open>
  C6, as stated, fails: when \<open>AssignTask\<close> returns an error, \<open>AssignWork\<close> prints
  nothing. Here the assigner writes nothing and returns the error \<open>busy\<close>, and the
  output of \<open>AssignWork\<close> stays empty.
\<close>

theorem AssignWork_discards_error:
  "AssignTask \<lparr>AssignTask = (\<lambda>task assignee. return_io (Some (ErrorString ''busy'')))\<rparr>
       ''Review code'' (Some (Employee_Intern \<lparr>Intern.Name = ''Charlie''\<rparr>)) []
     = (Inr (Some (ErrorString ''busy'')), [])
   \<and> AssignWork (Some \<lparr>AssignTask = (\<lambda>task assignee. return_io (Some (ErrorString ''busy'')))\<rparr>)
       (Some (Employee_Intern \<lparr>Intern.Name = ''Charlie''\<rparr>)) ''Review code'' []
     = (Inr (), [])"
  by (simp add: AssignWork_def io_defs)

text \<open>
  C6, amended: when \<open>Save\<close> returns an error, \<open>AddEmployee\<close> writes
  \<open>Error saving employee: <error>\<close> after what the single call of \<open>Save\<close> wrote, and
  returns; when \<open>GetByName\<close> returns an error, \<open>FindEmployee\<close> writes
  \<open>Error fetching employee: <error>\<close> after what the single call of \<open>GetByName\<close>
  wrote, and returns without a found line; when \<open>AssignTask\<close> returns an error,
  \<open>AssignWork\<close> returns having written nothing beyond what the single call of
  \<open>AssignTask\<close> wrote. No caller returns the error.
\<close>

theorem callers_on_failure:
  "(Save r emp out = (Inr (Some e), out1) \<longrightarrow>
      AddEmployee \<lparr>repository = Some r\<rparr> emp out
        = (Inr (), out1 @ ''Error saving employee: '' @ Error e @ newline))
   \<and> (GetByName r n out = (Inr (found, Some e), out1) \<longrightarrow>
      FindEmployee \<lparr>repository = Some r\<rparr> n out
        = (Inr (), out1 @ ''Error fetching employee: '' @ Error e @ newline))
   \<and> (AssignTask a task dev out = (Inr (Some e), out1) \<longrightarrow>
      AssignWork (Some a) dev task out = (Inr (), out1))"
  by (simp add: AddEmployee_def FindEmployee_def AssignWork_def io_defs)

theorem callers_on_failure_witness:
  "AddEmployee
      \<lparr>repository = Some
         \<lparr>Save = (\<lambda>emp. return_io (Some (ErrorString ''disk full''))),
          GetByName = (\<lambda>n. return_io
             (\<lparr>DIP_Employee.Name = [], DIP_Employee.Salary = 0\<rparr>, Some (ErrorString ''disk full'')))\<rparr>\<rparr>
      \<lparr>DIP_Employee.Name = ''Mohamed'', DIP_Employee.Salary = 5000\<rparr> []
     = (Inr (), ''Error saving employee: disk full'' @ newline)
   \<and> FindEmployee
      \<lparr>repository = Some
         \<lparr>Save = (\<lambda>emp. return_io (Some (ErrorString ''disk full''))),
          GetByName = (\<lambda>n. return_io
             (\<lparr>DIP_Employee.Name = [], DIP_Employee.Salary = 0\<rparr>, Some (ErrorString ''disk full'')))\<rparr>\<rparr>
      ''Mohamed'' []
     = (Inr (), ''Error fetching employee: disk full'' @ newline)
   \<and> AssignWork
      (Some \<lparr>AssignTask = (\<lambda>task assignee. return_io (Some (ErrorString ''disk full'')))\<rparr>)
      None ''Review code'' []
     = (Inr (), [])"
  using callers_on_failure
    [of "\<lparr>Save = (\<lambda>emp. return_io (Some (ErrorString ''disk full''))),
          GetByName = (\<lambda>n. return_io
             (\<lparr>DIP_Employee.Name = [], DIP_Employee.Salary = 0\<rparr>, Some (ErrorString ''disk full'')))\<rparr>"
        "\<lparr>DIP_Employee.Name = ''Mohamed'', DIP_Employee.Salary = 5000\<rparr>" "[]"
        "ErrorString ''disk full''" "[]" "''Mohamed''"
        "\<lparr>DIP_Employee.Name = [], DIP_Employee.Salary = 0\<rparr>"
        "\<lparr>AssignTask = (\<lambda>task assignee. return_io (Some (ErrorString ''disk full'')))\<rparr>"
        "''Review code''" None]
  by (simp add: return_io_def)

end
